theory Spec2Isabelle
  imports Complex_Main "HOL-Library.AList"
begin

section \<open>JavaScript numbers\<close>

text \<open>
  A JavaScript number is modelled as an exact rational, or one of the three special
  values of the number type. Arithmetic on finite values is exact (no rounding to
  binary64 and no overflow to Infinity); the special values follow IEEE 754. The two
  zeros are identified, as \<^verbatim>\<open>===\<close> does.
\<close>

datatype number = Finite rat | PosInfinity | NegInfinity | NaN

fun num_isNaN :: "number \<Rightarrow> bool" where
  "num_isNaN NaN = True"
| "num_isNaN _ = False"

fun num_isFinite :: "number \<Rightarrow> bool" where
  "num_isFinite (Finite _) = True"
| "num_isFinite _ = False"

fun num_neg :: "number \<Rightarrow> number" where
  "num_neg (Finite x) = Finite (- x)"
| "num_neg PosInfinity = NegInfinity"
| "num_neg NegInfinity = PosInfinity"
| "num_neg NaN = NaN"

fun num_add :: "number \<Rightarrow> number \<Rightarrow> number" where
  "num_add (Finite x) (Finite y) = Finite (x + y)"
| "num_add NaN _ = NaN"
| "num_add _ NaN = NaN"
| "num_add PosInfinity NegInfinity = NaN"
| "num_add NegInfinity PosInfinity = NaN"
| "num_add PosInfinity _ = PosInfinity"
| "num_add NegInfinity _ = NegInfinity"
| "num_add _ PosInfinity = PosInfinity"
| "num_add _ NegInfinity = NegInfinity"

definition num_sub :: "number \<Rightarrow> number \<Rightarrow> number" where
  "num_sub a b = num_add a (num_neg b)"

text \<open>The sign of a number: \<open>1\<close>, \<open>-1\<close>, or \<open>0\<close> for zero and NaN.\<close>

fun num_sign :: "number \<Rightarrow> int" where
  "num_sign (Finite x) = (if 0 < x then 1 else if x < 0 then - 1 else 0)"
| "num_sign PosInfinity = 1"
| "num_sign NegInfinity = - 1"
| "num_sign NaN = 0"

definition signed_infinity :: "int \<Rightarrow> number" where
  "signed_infinity s = (if 0 < s then PosInfinity else if s < 0 then NegInfinity else NaN)"

fun num_mul :: "number \<Rightarrow> number \<Rightarrow> number" where
  "num_mul (Finite x) (Finite y) = Finite (x * y)"
| "num_mul NaN _ = NaN"
| "num_mul _ NaN = NaN"
| "num_mul a b = signed_infinity (num_sign a * num_sign b)"

text \<open>
  Division. A finite nonzero number divided by zero is an infinity (of the sign of the
  numerator, the zero being taken as positive); zero by zero and infinity by infinity
  are NaN; a finite number by an infinity is zero.
\<close>

fun num_div :: "number \<Rightarrow> number \<Rightarrow> number" where
  "num_div (Finite x) (Finite y) =
     (if y = 0 then signed_infinity (num_sign (Finite x)) else Finite (x / y))"
| "num_div NaN _ = NaN"
| "num_div _ NaN = NaN"
| "num_div (Finite x) _ = Finite 0"
| "num_div a (Finite y) =
     signed_infinity (num_sign a * (if y < 0 then - 1 else 1))"
| "num_div _ _ = NaN"

text \<open>\<^verbatim>\<open>Math.round\<close>: the nearest integer, a tie going towards positive infinity.\<close>

fun Math_round :: "number \<Rightarrow> number" where
  "Math_round (Finite x) = Finite (of_int \<lfloor>x + 1 / 2\<rfloor>)"
| "Math_round v = v"

section \<open>Metric comparator\<close>

text \<open>
  \<^verbatim>\<open>calculateChange(current, previous)\<close>; \<open>None\<close> is the \<^verbatim>\<open>null\<close> result.
\<close>

definition calculateChange :: "number \<Rightarrow> number \<Rightarrow> number option" where
  "calculateChange current previous =
     (if previous = Finite 0 then
        (if current = Finite 0 then Some (Finite 0) else None)
      else
        (let change = num_mul (num_div (num_sub current previous) previous) (Finite 100)
         in if \<not> num_isFinite change then None
            else Some (num_div (Math_round (num_mul change (Finite 10))) (Finite 10))))"

section \<open>Dates\<close>

text \<open>
  A \<^verbatim>\<open>Date\<close> holds a time value: milliseconds since the epoch. The functions below are
  the day, year and month functions that ECMAScript defines on time values
  (\<^verbatim>\<open>Day\<close>, \<^verbatim>\<open>DayFromYear\<close>, \<^verbatim>\<open>YearFromTime\<close>, \<^verbatim>\<open>MonthFromTime\<close>, \<^verbatim>\<open>DateFromTime\<close>,
  \<^verbatim>\<open>MakeDay\<close>, \<^verbatim>\<open>MakeTime\<close>, \<^verbatim>\<open>MakeDate\<close>) and the \<^verbatim>\<open>Date\<close> methods the service calls.
  The local time zone is taken to be UTC (no offset, no daylight saving transitions), and
  the time value is an unbounded integer: the limit of 8.64e15 ms is applied only where
  an arbitrary number is turned into a \<^verbatim>\<open>Date\<close>.
\<close>

definition msPerDay :: int where
  "msPerDay = 86400000"

definition msPerHour :: int where
  "msPerHour = 3600000"

definition Day :: "int \<Rightarrow> int" where
  "Day t = t div msPerDay"

definition TimeWithinDay :: "int \<Rightarrow> int" where
  "TimeWithinDay t = t mod msPerDay"

definition DaysInYear :: "int \<Rightarrow> int" where
  "DaysInYear y =
     (if y mod 4 \<noteq> 0 then 365 else if y mod 100 \<noteq> 0 then 366
      else if y mod 400 \<noteq> 0 then 365 else 366)"

definition DayFromYear :: "int \<Rightarrow> int" where
  "DayFromYear y =
     365 * (y - 1970) + (y - 1969) div 4 - (y - 1901) div 100 + (y - 1601) div 400"

lemma DayFromYear_div100: "(y - 1901) div 100 = ((y - 1969) div 4 + 17) div 25" for y :: int
proof -
  have "(y - 1901) div 100 = ((y - 1901) div 4) div 25"
    using zdiv_zmult2_eq [of 4 "y - 1901" 25] by simp
  also have "(y - 1901) div 4 = (y - 1969) div 4 + 17" by linarith
  finally show ?thesis .
qed

lemma DayFromYear_div400: "(y - 1601) div 400 = ((y - 1901) div 100 + 3) div 4" for y :: int
proof -
  have "(y - 1601) div 400 = ((y - 1601) div 100) div 4"
    using zdiv_zmult2_eq [of 100 "y - 1601" 4] by simp
  also have "(y - 1601) div 100 = (y - 1901) div 100 + 3" by linarith
  finally show ?thesis .
qed

text \<open>A year has at least 365 days.\<close>

lemma DayFromYear_mono: "DayFromYear y + 365 \<le> DayFromYear (y + 1)"
proof -
  define a where "a = (y - 1969) div 4"
  define a' where "a' = (y + 1 - 1969) div 4"
  define b where "b = (a + 17) div 25"
  define b' where "b' = (a' + 17) div 25"
  define c where "c = (b + 3) div 4"
  define c' where "c' = (b' + 3) div 4"
  have A: "a' = a \<or> a' = a + 1"
    unfolding a_def a'_def by linarith
  have B: "b' = b \<or> (b' = b + 1 \<and> a' = a + 1)"
    using A unfolding b_def b'_def by (auto; linarith)
  have C: "c' = c \<or> (c' = c + 1 \<and> b' = b + 1)"
    using B unfolding c_def c'_def by (auto; linarith)
  have "DayFromYear y = 365 * (y - 1970) + a - b + c"
    unfolding DayFromYear_def DayFromYear_div400 DayFromYear_div100 a_def b_def c_def by simp
  moreover have "DayFromYear (y + 1) = 365 * (y + 1 - 1970) + a' - b' + c'"
    unfolding DayFromYear_def DayFromYear_div400 DayFromYear_div100 a'_def b'_def c'_def
    by simp
  ultimately show ?thesis
    using A B C by (elim disjE conjE; simp)
qed

text \<open>
  \<^verbatim>\<open>YearFromTime\<close> is the largest year whose first day is not after the given day. The
  search starts from a year that is not after it and walks forward.
\<close>

function year_search :: "int \<Rightarrow> int \<Rightarrow> int" where
  "year_search y d = (if DayFromYear (y + 1) \<le> d then year_search (y + 1) d else y)"
  by pat_completeness auto
termination
proof (relation "measure (\<lambda>(y, d). nat (d + 1 - DayFromYear (y + 1)))")
  show "wf (measure (\<lambda>(y, d). nat (d + 1 - DayFromYear (y + 1))))"
    by simp
next
  fix y d :: int
  assume "DayFromYear (y + 1) \<le> d"
  moreover have "DayFromYear (y + 1) + 365 \<le> DayFromYear (y + 1 + 1)"
    by (rule DayFromYear_mono)
  ultimately show
    "((y + 1, d), (y, d)) \<in> measure (\<lambda>(y, d). nat (d + 1 - DayFromYear (y + 1)))"
    by simp
qed

declare year_search.simps [simp del]

definition YearFromDay :: "int \<Rightarrow> int" where
  "YearFromDay d =
     year_search (if 0 \<le> d then 1970 + d div 366 else 1970 + d div 365) d"

definition YearFromTime :: "int \<Rightarrow> int" where
  "YearFromTime t = YearFromDay (Day t)"

definition InLeapYear :: "int \<Rightarrow> int" where
  "InLeapYear t = (if DaysInYear (YearFromTime t) = 366 then 1 else 0)"

definition DayWithinYear :: "int \<Rightarrow> int" where
  "DayWithinYear t = Day t - DayFromYear (YearFromTime t)"

text \<open>The day within the year on which month \<open>m\<close> (0 to 11) starts; \<open>l\<close> is 1 in a leap year.\<close>

definition month_start :: "int \<Rightarrow> int \<Rightarrow> int" where
  "month_start l m =
     (if m = 0 then 0 else if m = 1 then 31 else if m = 2 then 59 + l
      else if m = 3 then 90 + l else if m = 4 then 120 + l else if m = 5 then 151 + l
      else if m = 6 then 181 + l else if m = 7 then 212 + l else if m = 8 then 243 + l
      else if m = 9 then 273 + l else if m = 10 then 304 + l else 334 + l)"

definition MonthFromTime :: "int \<Rightarrow> int" where
  "MonthFromTime t =
     (let dy = DayWithinYear t; l = InLeapYear t in
      if dy < 31 then 0 else if dy < 59 + l then 1 else if dy < 90 + l then 2
      else if dy < 120 + l then 3 else if dy < 151 + l then 4 else if dy < 181 + l then 5
      else if dy < 212 + l then 6 else if dy < 243 + l then 7 else if dy < 273 + l then 8
      else if dy < 304 + l then 9 else if dy < 334 + l then 10 else 11)"

definition DateFromTime :: "int \<Rightarrow> int" where
  "DateFromTime t = DayWithinYear t - month_start (InLeapYear t) (MonthFromTime t) + 1"


definition MakeTime :: "int \<Rightarrow> int \<Rightarrow> int \<Rightarrow> int \<Rightarrow> int" where
  "MakeTime h m s ms = h * msPerHour + m * 60000 + s * 1000 + ms"

definition MakeDay :: "int \<Rightarrow> int \<Rightarrow> int \<Rightarrow> int" where
  "MakeDay year month dt =
     (let ym = year + month div 12; mn = month mod 12 in
      DayFromYear ym + month_start (if DaysInYear ym = 366 then 1 else 0) mn + dt - 1)"

definition MakeDate :: "int \<Rightarrow> int \<Rightarrow> int" where
  "MakeDate day time = day * msPerDay + time"

text \<open>The methods of \<^verbatim>\<open>Date\<close>, on the time value of a valid date.\<close>

definition getFullYear :: "int \<Rightarrow> int" where
  "getFullYear t = YearFromTime t"

definition getMonth :: "int \<Rightarrow> int" where
  "getMonth t = MonthFromTime t"

definition getDate :: "int \<Rightarrow> int" where
  "getDate t = DateFromTime t"


definition setHours :: "int \<Rightarrow> int \<Rightarrow> int \<Rightarrow> int \<Rightarrow> int \<Rightarrow> int" where
  "setHours t h m s ms = MakeDate (Day t) (MakeTime h m s ms)"

definition setDate :: "int \<Rightarrow> int \<Rightarrow> int" where
  "setDate t dt = MakeDate (MakeDay (YearFromTime t) (MonthFromTime t) dt) (TimeWithinDay t)"

definition setMonth :: "int \<Rightarrow> int \<Rightarrow> int" where
  "setMonth t m = MakeDate (MakeDay (YearFromTime t) m (DateFromTime t)) (TimeWithinDay t)"

definition setMonthDate :: "int \<Rightarrow> int \<Rightarrow> int \<Rightarrow> int" where
  "setMonthDate t m dt = MakeDate (MakeDay (YearFromTime t) m dt) (TimeWithinDay t)"

definition setFullYear :: "int \<Rightarrow> int \<Rightarrow> int" where
  "setFullYear t y = MakeDate (MakeDay y (MonthFromTime t) (DateFromTime t)) (TimeWithinDay t)"

section \<open>Period resolver\<close>

record DateRange =
  range_start :: int
  range_end :: int

record PeriodBounds =
  current :: DateRange
  previous :: DateRange

text \<open>
  \<^verbatim>\<open>getPeriodBounds(period)\<close>. The clock reading of \<^verbatim>\<open>new Date()\<close> is the second argument.
  The period is the string the caller passes: the type \<^verbatim>\<open>AnalyticsPeriod\<close> is not checked
  at run time, and the \<^verbatim>\<open>default\<close> branch takes every other string.
\<close>

definition getPeriodBounds :: "string \<Rightarrow> int \<Rightarrow> PeriodBounds" where
  "getPeriodBounds period now =
     (let endCurrent = now;
          startCurrent = setHours now 0 0 0 0
      in
      if period = ''today'' then
        (let previousStart = setDate startCurrent (getDate startCurrent - 1);
             previousEnd = startCurrent
         in \<lparr>current = \<lparr>range_start = startCurrent, range_end = endCurrent\<rparr>,
             previous = \<lparr>range_start = previousStart, range_end = previousEnd\<rparr>\<rparr>)
      else if period = ''week'' then
        (let startCurrent = setDate startCurrent (getDate startCurrent - 6);
             previousEnd = startCurrent;
             previousStart = setDate startCurrent (getDate startCurrent - 7)
         in \<lparr>current = \<lparr>range_start = startCurrent, range_end = endCurrent\<rparr>,
             previous = \<lparr>range_start = previousStart, range_end = previousEnd\<rparr>\<rparr>)
      else if period = ''month'' then
        (let startCurrent = setDate startCurrent 1;
             previousEnd = startCurrent;
             previousStart = setMonth startCurrent (getMonth startCurrent - 1)
         in \<lparr>current = \<lparr>range_start = startCurrent, range_end = endCurrent\<rparr>,
             previous = \<lparr>range_start = previousStart, range_end = previousEnd\<rparr>\<rparr>)
      else if period = ''year'' then
        (let startCurrent = setMonthDate startCurrent 0 1;
             previousEnd = startCurrent;
             previousStart = setFullYear startCurrent (getFullYear startCurrent - 1)
         in \<lparr>current = \<lparr>range_start = startCurrent, range_end = endCurrent\<rparr>,
             previous = \<lparr>range_start = previousStart, range_end = previousEnd\<rparr>\<rparr>)
      else
        \<lparr>current = \<lparr>range_start = startCurrent, range_end = endCurrent\<rparr>,
         previous = \<lparr>range_start = startCurrent, range_end = startCurrent\<rparr>\<rparr>)"

section \<open>Values, documents and the runtime\<close>

text \<open>
  The values a document field can hold and the service looks at. A Firestore
  \<^verbatim>\<open>Timestamp\<close> is represented by the time value of its \<^verbatim>\<open>toDate()\<close>, in milliseconds.
  \<^verbatim>\<open>Undefined\<close> is what reading an absent field gives. No value of the model is a
  \<^verbatim>\<open>bigint\<close>, and a \<^verbatim>\<open>Timestamp\<close> is the only value with a \<^verbatim>\<open>toDate\<close> method.
\<close>

datatype jsval =
    Undefined
  | Null
  | JBool bool
  | JNumber number
  | JString string
  | JTimestamp int
  | JObject "(string \<times> jsval) list"
  | JArray "jsval list"

type_synonym docdata = "(string \<times> jsval) list"

text \<open>\<^verbatim>\<open>data[field]\<close>, and \<^verbatim>\<open>value?.field\<close> on a value that may be missing.\<close>

definition field :: "docdata \<Rightarrow> string \<Rightarrow> jsval" where
  "field data f = (case map_of data f of Some v \<Rightarrow> v | None \<Rightarrow> Undefined)"


text \<open>Truthiness, \<^verbatim>\<open>a || b\<close> and \<^verbatim>\<open>a ?? b\<close>.\<close>

fun truthy :: "jsval \<Rightarrow> bool" where
  "truthy Undefined = False"
| "truthy Null = False"
| "truthy (JBool b) = b"
| "truthy (JNumber n) = (n \<noteq> Finite 0 \<and> n \<noteq> NaN)"
| "truthy (JString s) = (s \<noteq> [])"
| "truthy _ = True"


definition nullish :: "jsval \<Rightarrow> jsval \<Rightarrow> jsval" where
  "nullish a b = (if a = Undefined \<or> a = Null then b else a)"

text \<open>
  What the JavaScript runtime provides and the repository does not define: the clock
  read by \<^verbatim>\<open>new Date()\<close>, \<^verbatim>\<open>Date.parse\<close>, the conversion of a string to a number, of a
  number to a string, and of an object to a primitive value.
\<close>

record runtime =
  clock :: int
  Date_parse :: "string \<Rightarrow> number"
  StringToNumber :: "string \<Rightarrow> number"
  NumberToString :: "number \<Rightarrow> string"
  ToPrimitive :: "jsval \<Rightarrow> jsval"

fun ToNumber_primitive :: "runtime \<Rightarrow> jsval \<Rightarrow> number" where
  "ToNumber_primitive rt Undefined = NaN"
| "ToNumber_primitive rt Null = Finite 0"
| "ToNumber_primitive rt (JBool b) = Finite (if b then 1 else 0)"
| "ToNumber_primitive rt (JNumber n) = n"
| "ToNumber_primitive rt (JString s) = StringToNumber rt s"
| "ToNumber_primitive rt _ = NaN"

fun is_object :: "jsval \<Rightarrow> bool" where
  "is_object (JTimestamp _) = True"
| "is_object (JObject _) = True"
| "is_object (JArray _) = True"
| "is_object _ = False"

definition ToNumber :: "runtime \<Rightarrow> jsval \<Rightarrow> number" where
  "ToNumber rt v = ToNumber_primitive rt (if is_object v then ToPrimitive rt v else v)"





definition js_times :: "runtime \<Rightarrow> jsval \<Rightarrow> jsval \<Rightarrow> number" where
  "js_times rt a b = num_mul (ToNumber rt a) (ToNumber rt b)"

section \<open>Date objects\<close>

text \<open>A \<^verbatim>\<open>Date\<close> object: a time value, or the invalid date (time value NaN).\<close>

datatype date = Date int | InvalidDate

text \<open>
  \<^verbatim>\<open>new Date(value)\<close> for a number: the number truncated towards zero, invalid beyond
  8.64e15 ms and for NaN and the infinities.
\<close>

fun Date_of_number :: "number \<Rightarrow> date" where
  "Date_of_number (Finite x) =
     (if 8640000000000000 < \<bar>x\<bar> then InvalidDate
      else Date (if 0 \<le> x then \<lfloor>x\<rfloor> else \<lceil>x\<rceil>))"
| "Date_of_number _ = InvalidDate"

text \<open>
  The comparisons \<^verbatim>\<open>timestamp >= range.start\<close> and \<^verbatim>\<open>timestamp < range.end\<close>: on the time
  values, false for the invalid date.
\<close>

fun date_ge :: "date \<Rightarrow> int \<Rightarrow> bool" where
  "date_ge (Date t) s = (s \<le> t)"
| "date_ge InvalidDate s = False"

fun date_lt :: "date \<Rightarrow> int \<Rightarrow> bool" where
  "date_lt (Date t) e = (t < e)"
| "date_lt InvalidDate e = False"

section \<open>Timestamp extraction and number normalisation\<close>

text \<open>
  \<^verbatim>\<open>extractTimestamp(value)\<close>. The branches are those of the source, in its order; the
  branch for an object with a \<^verbatim>\<open>toDate\<close> function is the one for \<^verbatim>\<open>Timestamp\<close>. No branch
  throws.
\<close>

definition extractTimestamp :: "runtime \<Rightarrow> jsval \<Rightarrow> date" where
  "extractTimestamp rt v =
     (if \<not> truthy v then Date (clock rt)
      else case v of
        JTimestamp t \<Rightarrow> Date t
      | JNumber n \<Rightarrow> Date_of_number n
      | JString s \<Rightarrow>
          (let parsed = Date_parse rt s
           in if num_isNaN parsed then Date (clock rt) else Date_of_number parsed)
      | JObject fs \<Rightarrow>
          (if ''seconds'' \<in> fst ` set fs
           then Date_of_number (js_times rt (field fs ''seconds'') (JNumber (Finite 1000)))
           else Date (clock rt))
      | _ \<Rightarrow> Date (clock rt))"

definition normalizeNumber :: "runtime \<Rightarrow> jsval \<Rightarrow> number" where
  "normalizeNumber rt v =
     (case v of
        JNumber n \<Rightarrow> (if \<not> num_isNaN n then n else Finite 0)
      | JString s \<Rightarrow>
          (let parsed = StringToNumber rt s
           in if num_isNaN parsed then Finite 0 else parsed)
      | _ \<Rightarrow> Finite 0)"

section \<open>The record store\<close>

text \<open>
  The Firestore calls of the service. A query is a collection path and a list of
  constraints; a call returns its result or fails (the promise rejects). The store is a
  parameter of every function that queries it.
\<close>

datatype whereop = Eq | Ge | Lt

datatype direction = Asc | Desc

datatype constraint =
    Where string whereop jsval
  | OrderBy string direction
  | Limit int

record query =
  q_path :: string
  q_constraints :: "constraint list"

datatype error = QueryFailed string | TypeError | RangeError

record doc =
  doc_id :: string
  doc_data :: docdata

text \<open>
  \<^verbatim>\<open>getDocs\<close> gives the documents of the snapshot; \<^verbatim>\<open>getCountFromServer\<close> the \<^verbatim>\<open>count\<close> of
  its data; \<^verbatim>\<open>getAggregateFromServer\<close>, called with a count and the sum of a field, the
  pair of the two.
\<close>

record store =
  getDocs :: "query \<Rightarrow> error + doc list"
  getCountFromServer :: "query \<Rightarrow> error + jsval"
  getAggregateFromServer :: "query \<Rightarrow> string \<Rightarrow> error + jsval \<times> jsval"

section \<open>Resilient aggregator\<close>

definition buildRangeConstraints :: "DateRange \<Rightarrow> string \<Rightarrow> constraint list" where
  "buildRangeConstraints rng fld =
     [Where fld Ge (JTimestamp (range_start rng)), Where fld Lt (JTimestamp (range_end rng))]"

text \<open>\<^verbatim>\<open>Math.round(x * 100) / 100\<close>.\<close>

definition round_cents :: "number \<Rightarrow> number" where
  "round_cents x = num_div (Math_round (num_mul x (Finite 100))) (Finite 100)"

fun num_gt_zero :: "number \<Rightarrow> bool" where
  "num_gt_zero (Finite x) = (0 < x)"
| "num_gt_zero PosInfinity = True"
| "num_gt_zero _ = False"

record order_aggregate =
  agg_count :: number
  agg_revenue :: number
  agg_average :: number

definition order_aggregate_of :: "number \<Rightarrow> number \<Rightarrow> order_aggregate" where
  "order_aggregate_of countValue revenueValue =
     (let averageValue =
            (if num_gt_zero countValue then num_div revenueValue countValue else Finite 0)
      in \<lparr>agg_count = countValue,
          agg_revenue = round_cents revenueValue,
          agg_average = round_cents averageValue\<rparr>)"

text \<open>The body of the \<^verbatim>\<open>forEach\<close> of the fallback scan of \<^verbatim>\<open>aggregateOrders\<close>.\<close>

definition order_total :: "runtime \<Rightarrow> docdata \<Rightarrow> number" where
  "order_total rt data =
     (case field data ''total'' of
        JNumber n \<Rightarrow> n
      | v \<Rightarrow> ToNumber rt (nullish v (JNumber (Finite 0))))"

definition aggregate_step ::
  "runtime \<Rightarrow> DateRange \<Rightarrow> number \<times> number \<Rightarrow> doc \<Rightarrow> number \<times> number" where
  "aggregate_step rt rng acc docSnap =
     (let data = doc_data docSnap;
          timestamp = extractTimestamp rt (field data ''createdAt'')
      in if date_ge timestamp (range_start rng) \<and> date_lt timestamp (range_end rng)
         then (let total = order_total rt data
               in (num_add (fst acc) (Finite 1),
                   if \<not> num_isNaN total then num_add (snd acc) total else snd acc))
         else acc)"

definition aggregateOrders :: "store \<Rightarrow> runtime \<Rightarrow> DateRange \<Rightarrow> error + order_aggregate" where
  "aggregateOrders st rt rng =
     (let constraints = buildRangeConstraints rng ''createdAt'' in
      case getAggregateFromServer st \<lparr>q_path = ''orders'', q_constraints = constraints\<rparr> ''total'' of
        Inr data \<Rightarrow>
          Inr (order_aggregate_of (normalizeNumber rt (fst data)) (normalizeNumber rt (snd data)))
      | Inl err \<Rightarrow>
          (case getDocs st \<lparr>q_path = ''orders'', q_constraints = [OrderBy ''createdAt'' Desc]\<rparr> of
             Inl err' \<Rightarrow> Inl err'
           | Inr snapshot \<Rightarrow>
               (let acc = foldl (aggregate_step rt rng) (Finite 0, Finite 0) snapshot
                in Inr (order_aggregate_of (fst acc) (snd acc)))))"

text \<open>
  The options of \<^verbatim>\<open>countDocumentsInRange\<close>; an absent option is \<open>None\<close>, and absent
  options are the record of three \<open>None\<close>.
\<close>

record count_options =
  fallbackField :: "string option"
  additionalFilters :: "constraint list option"
  filterPredicate :: "(docdata \<Rightarrow> bool) option"

definition no_options :: count_options where
  "no_options = \<lparr>fallbackField = None, additionalFilters = None, filterPredicate = None\<rparr>"

definition count_step ::
  "runtime \<Rightarrow> string \<Rightarrow> DateRange \<Rightarrow> count_options \<Rightarrow> number \<Rightarrow> doc \<Rightarrow> number" where
  "count_step rt timestampField rng options countValue docSnap =
     (let data = doc_data docSnap in
      if (case filterPredicate options of Some p \<Rightarrow> \<not> p data | None \<Rightarrow> False) then countValue
      else
        (let timestamp = extractTimestamp rt
               (nullish (field data timestampField)
                  (case fallbackField options of
                     Some f \<Rightarrow> (if f \<noteq> [] then field data f else Undefined)
                   | None \<Rightarrow> Undefined))
         in if date_ge timestamp (range_start rng) \<and> date_lt timestamp (range_end rng)
            then num_add countValue (Finite 1)
            else countValue))"

definition countDocumentsInRange ::
  "store \<Rightarrow> runtime \<Rightarrow> string \<Rightarrow> string \<Rightarrow> DateRange \<Rightarrow> count_options \<Rightarrow> error + number" where
  "countDocumentsInRange st rt collectionPath timestampField rng options =
     (let constraints = buildRangeConstraints rng timestampField
            @ (case additionalFilters options of Some fs \<Rightarrow> fs | None \<Rightarrow> [])
      in
      case getCountFromServer st \<lparr>q_path = collectionPath, q_constraints = constraints\<rparr> of
        Inr cnt \<Rightarrow> Inr (normalizeNumber rt cnt)
      | Inl err \<Rightarrow>
          (case getDocs st
                  \<lparr>q_path = collectionPath,
                   q_constraints =
                     [OrderBy (case fallbackField options of Some f \<Rightarrow> f | None \<Rightarrow> timestampField)
                        Desc]\<rparr> of
             Inl err' \<Rightarrow> Inl err'
           | Inr fallbackRef \<Rightarrow>
               Inr (foldl (count_step rt timestampField rng options) (Finite 0) fallbackRef)))"

text \<open>
  Modelled from the spec: the Record Store behind the Firestore calls, which is not part
  of the repository. A collection is a list of records. The server-side count and sum
  are taken over the records that pass every filter of the query, a range filter on a
  time field passing the records whose field holds a timestamp in the range; the sum
  adds the numbers found in the field and skips every other record. A scan returns the
  records of the collection that pass the filters of the query, cut at its limit; the
  order of a result is not modelled. When the aggregate capability is unavailable, the
  count and the aggregate call fail and the scan still answers.
\<close>

fun passes :: "constraint \<Rightarrow> docdata \<Rightarrow> bool" where
  "passes (Where f Eq v) data = (field data f = v)"
| "passes (Where f Ge (JTimestamp s)) data =
     (case field data f of JTimestamp t \<Rightarrow> s \<le> t | _ \<Rightarrow> False)"
| "passes (Where f Lt (JTimestamp e)) data =
     (case field data f of JTimestamp t \<Rightarrow> t < e | _ \<Rightarrow> False)"
| "passes (Where f _ _) data = False"
| "passes _ data = True"

definition selected :: "query \<Rightarrow> doc list \<Rightarrow> doc list" where
  "selected q docs = filter (\<lambda>d. list_all (\<lambda>c. passes c (doc_data d)) (q_constraints q)) docs"

fun apply_limit :: "constraint list \<Rightarrow> doc list \<Rightarrow> doc list" where
  "apply_limit [] docs = docs"
| "apply_limit (Limit n # cs) docs = take (nat n) (apply_limit cs docs)"
| "apply_limit (_ # cs) docs = apply_limit cs docs"

definition server_sum :: "string \<Rightarrow> doc list \<Rightarrow> number" where
  "server_sum f docs =
     foldl (\<lambda>acc d. case field (doc_data d) f of JNumber n \<Rightarrow> num_add acc n | _ \<Rightarrow> acc)
       (Finite 0) docs"

definition record_store :: "(string \<Rightarrow> doc list) \<Rightarrow> bool \<Rightarrow> store" where
  "record_store collections aggregates =
     \<lparr>getDocs = (\<lambda>q. Inr (apply_limit (q_constraints q) (selected q (collections (q_path q))))),
      getCountFromServer = (\<lambda>q.
        if aggregates
        then Inr (JNumber (Finite (of_nat (length (selected q (collections (q_path q)))))))
        else Inl (QueryFailed ''aggregate unavailable'')),
      getAggregateFromServer = (\<lambda>q f.
        if aggregates
        then Inr (JNumber (Finite (of_nat (length (selected q (collections (q_path q)))))),
                  JNumber (server_sum f (selected q (collections (q_path q)))))
        else Inl (QueryFailed ''aggregate unavailable''))\<rparr>"


section \<open>Collections with well-formed time fields\<close>

text \<open>
  The predicates in which the properties of the aggregator are stated. A record is
  stamped in a range when its time field holds a timestamp of the range. An order is
  well formed when its \<^verbatim>\<open>createdAt\<close> is a timestamp and its \<^verbatim>\<open>total\<close> is absent, null or a
  finite number.
\<close>

definition stamped_in :: "string \<Rightarrow> DateRange \<Rightarrow> doc \<Rightarrow> bool" where
  "stamped_in f rng d =
     (case field (doc_data d) f of
        JTimestamp t \<Rightarrow> range_start rng \<le> t \<and> t < range_end rng
      | _ \<Rightarrow> False)"

definition finite_total :: "doc \<Rightarrow> rat" where
  "finite_total d = (case field (doc_data d) ''total'' of JNumber (Finite x) \<Rightarrow> x | _ \<Rightarrow> 0)"

definition well_formed_order :: "doc \<Rightarrow> bool" where
  "well_formed_order d \<longleftrightarrow>
     (case field (doc_data d) ''createdAt'' of JTimestamp t \<Rightarrow> True | _ \<Rightarrow> False)
     \<and> (case field (doc_data d) ''total'' of
          Undefined \<Rightarrow> True | Null \<Rightarrow> True | JNumber (Finite x) \<Rightarrow> True | _ \<Rightarrow> False)"

definition has_timestamp :: "string \<Rightarrow> doc \<Rightarrow> bool" where
  "has_timestamp f d \<longleftrightarrow> (case field (doc_data d) f of JTimestamp t \<Rightarrow> True | _ \<Rightarrow> False)"

text \<open>
  The in-process predicate of the options of \<^verbatim>\<open>countDocumentsInRange\<close> agrees with their
  additional filters on a record, as the two do at every call of the service
  (\<^verbatim>\<open>relatedEntityType\<close> equal to \<^verbatim>\<open>gallery\<close>, or neither given).
\<close>

definition filters_agree :: "count_options \<Rightarrow> doc \<Rightarrow> bool" where
  "filters_agree options d \<longleftrightarrow>
     (case filterPredicate options of Some p \<Rightarrow> p (doc_data d) | None \<Rightarrow> True)
       = list_all (\<lambda>c. passes c (doc_data d))
           (case additionalFilters options of Some fs \<Rightarrow> fs | None \<Rightarrow> [])"

definition counted :: "string \<Rightarrow> DateRange \<Rightarrow> count_options \<Rightarrow> doc \<Rightarrow> bool" where
  "counted f rng options d \<longleftrightarrow>
     stamped_in f rng d
     \<and> list_all (\<lambda>c. passes c (doc_data d))
         (case additionalFilters options of Some fs \<Rightarrow> fs | None \<Rightarrow> [])"

definition gallery_options :: count_options where
  "gallery_options =
     \<lparr>fallbackField = None,
      additionalFilters = Some [Where ''relatedEntityType'' Eq (JString ''gallery'')],
      filterPredicate = Some (\<lambda>data. field data ''relatedEntityType'' = JString ''gallery'')\<rparr>"

text \<open>
  A runtime for the examples: the clock at the given time, and conversions that
  recognise nothing. The examples hold numbers and timestamps only.
\<close>

definition quiet_runtime :: "int \<Rightarrow> runtime" where
  "quiet_runtime now =
     \<lparr>clock = now, Date_parse = (\<lambda>s. NaN), StringToNumber = (\<lambda>s. NaN),
      NumberToString = (\<lambda>n. ''NaN''), ToPrimitive = (\<lambda>v. JString ''[object Object]'')\<rparr>"

text \<open>Two collections for the examples: three orders, and two media records.\<close>

definition example_collections :: "string \<Rightarrow> doc list" where
  "example_collections p =
     (if p = ''orders'' then
        [\<lparr>doc_id = ''o1'',
          doc_data = [(''createdAt'', JTimestamp 1762170000000), (''total'', JNumber (Finite 100))]\<rparr>,
         \<lparr>doc_id = ''o2'',
          doc_data = [(''createdAt'', JTimestamp 1700000000000), (''total'', JNumber (Finite 50))]\<rparr>,
         \<lparr>doc_id = ''o3'', doc_data = [(''createdAt'', JTimestamp 1762170000001)]\<rparr>]
      else if p = ''media'' then
        [\<lparr>doc_id = ''m1'',
          doc_data = [(''uploadedAt'', JTimestamp 1762170000000),
                      (''relatedEntityType'', JString ''gallery'')]\<rparr>,
         \<lparr>doc_id = ''m2'',
          doc_data = [(''uploadedAt'', JTimestamp 1762170000000),
                      (''relatedEntityType'', JString ''product'')]\<rparr>]
      else [])"









section \<open>Arrays\<close>

text \<open>
  \<^verbatim>\<open>Array.prototype.sort\<close> with a comparator: the sort is stable, so for a comparator that
  orders the elements consistently its result is the one stable sorted arrangement,
  which insertion computes. Where the comparator is not consistent (it returns NaN for
  an invalid date) the language leaves the order to the implementation.
\<close>

fun insert_by :: "('a \<Rightarrow> 'a \<Rightarrow> bool) \<Rightarrow> 'a \<Rightarrow> 'a list \<Rightarrow> 'a list" where
  "insert_by le x [] = [x]"
| "insert_by le x (y # ys) = (if le x y then x # y # ys else y # insert_by le x ys)"

definition sort_by :: "('a \<Rightarrow> 'a \<Rightarrow> bool) \<Rightarrow> 'a list \<Rightarrow> 'a list" where
  "sort_by le xs = foldr (insert_by le) xs []"

text \<open>\<^verbatim>\<open>xs.slice(0, n)\<close> for an integer \<open>n\<close>: a negative \<open>n\<close> counts from the end.\<close>

definition slice_to :: "int \<Rightarrow> 'a list \<Rightarrow> 'a list" where
  "slice_to n xs = (if n < 0 then take (nat (int (length xs) + n)) xs else take (nat n) xs)"



section \<open>Activity feed merger\<close>
















section \<open>Country and region classifier\<close>














section \<open>Geographic breakdown\<close>









section \<open>Decimal strings\<close>















section \<open>Trend bucketizer\<close>


















section \<open>Single-flight currency resolver\<close>












section \<open>Properties of the calendar functions\<close>









lemma MonthFromTime_range: "0 \<le> MonthFromTime t \<and> MonthFromTime t \<le> 11"
  by (simp add: MonthFromTime_def Let_def)



lemma TimeWithinDay_MakeDate: "0 \<le> tm \<Longrightarrow> tm < msPerDay \<Longrightarrow> TimeWithinDay (MakeDate d tm) = tm"
  by (simp add: TimeWithinDay_def MakeDate_def msPerDay_def)

lemma MakeDay_month: "0 \<le> m \<Longrightarrow> m \<le> 11 \<Longrightarrow>
  MakeDay y m dt = DayFromYear y + month_start (if DaysInYear y = 366 then 1 else 0) m + dt - 1"
  by (simp add: MakeDay_def Let_def div_pos_pos_trivial)

lemma setDate_getDate: "setDate t (getDate t - k) = t - k * msPerDay"
proof -
  have "MakeDay (YearFromTime t) (MonthFromTime t) (DateFromTime t - k) = Day t - k"
    using MonthFromTime_range [of t]
    by (simp add: MakeDay_month DateFromTime_def DayWithinYear_def InLeapYear_def)
  moreover have "MakeDate (Day t - k) (TimeWithinDay t) = t - k * msPerDay"
    using div_mult_mod_eq [of t msPerDay]
    by (simp add: MakeDate_def Day_def TimeWithinDay_def left_diff_distrib)
  ultimately show ?thesis
    by (simp add: setDate_def getDate_def)
qed

lemma setHours_midnight: "setHours t 0 0 0 0 = Day t * msPerDay"
  by (simp add: setHours_def MakeDate_def MakeTime_def)










lemma MakeDate_midnight_mono: "d \<le> d' \<Longrightarrow> MakeDate d 0 \<le> d' * msPerDay"
  by (simp add: MakeDate_def msPerDay_def)

lemma getPeriodBounds_today:
  "getPeriodBounds ''today'' now =
     \<lparr>current = \<lparr>range_start = Day now * msPerDay, range_end = now\<rparr>,
      previous = \<lparr>range_start = Day now * msPerDay - msPerDay, range_end = Day now * msPerDay\<rparr>\<rparr>"
  by (simp add: getPeriodBounds_def Let_def setHours_midnight setDate_getDate)










lemma getPeriodBounds_other:
  "period \<notin> {''today'', ''week'', ''month'', ''year''} \<Longrightarrow>
   getPeriodBounds period now =
     \<lparr>current = \<lparr>range_start = Day now * msPerDay, range_end = now\<rparr>,
      previous = \<lparr>range_start = Day now * msPerDay, range_end = Day now * msPerDay\<rparr>\<rparr>"
  by (simp add: getPeriodBounds_def Let_def setHours_midnight)












section \<open>Properties of the aggregator\<close>

lemma selected_range:
  "selected \<lparr>q_path = p, q_constraints = buildRangeConstraints rng f\<rparr> docs
     = filter (stamped_in f rng) docs"
  unfolding selected_def
  by (rule filter_cong) (auto simp: buildRangeConstraints_def stamped_in_def split: jsval.splits)

lemma selected_order_only:
  "selected \<lparr>q_path = p, q_constraints = [OrderBy f dir]\<rparr> docs = docs"
  by (simp add: selected_def)

lemma order_total_well_formed:
  "well_formed_order d \<Longrightarrow> order_total rt (doc_data d) = Finite (finite_total d)"
  by (auto simp: well_formed_order_def order_total_def finite_total_def nullish_def ToNumber_def
      split: jsval.splits number.splits)

lemma extractTimestamp_Timestamp: "extractTimestamp rt (JTimestamp t) = Date t"
  by (simp add: extractTimestamp_def)

lemma aggregate_step_well_formed:
  assumes "well_formed_order d"
  shows "aggregate_step rt rng (Finite c, Finite r) d =
           (if stamped_in ''createdAt'' rng d then (Finite (c + 1), Finite (r + finite_total d))
            else (Finite c, Finite r))"
proof -
  obtain t where t: "field (doc_data d) ''createdAt'' = JTimestamp t"
    using assms by (auto simp: well_formed_order_def split: jsval.splits)
  show ?thesis
    using t order_total_well_formed [OF assms, of rt]
    by (simp add: aggregate_step_def Let_def extractTimestamp_Timestamp stamped_in_def)
qed

lemma aggregate_fold_well_formed:
  assumes "\<forall>d \<in> set docs. well_formed_order d"
  shows "foldl (aggregate_step rt rng) (Finite c, Finite r) docs =
           (Finite (c + of_nat (length (filter (stamped_in ''createdAt'' rng) docs))),
            Finite (r + sum_list (map finite_total (filter (stamped_in ''createdAt'' rng) docs))))"
  using assms
proof (induction docs arbitrary: c r)
  case Nil
  then show ?case by simp
next
  case (Cons d docs)
  then show ?case
    by (simp add: aggregate_step_well_formed algebra_simps)
qed

lemma server_sum_fold:
  assumes "\<forall>d \<in> set docs. well_formed_order d"
  shows "foldl (\<lambda>acc d. case field (doc_data d) ''total'' of JNumber n \<Rightarrow> num_add acc n | _ \<Rightarrow> acc)
            (Finite r) docs
         = Finite (r + sum_list (map finite_total docs))"
  using assms
proof (induction docs arbitrary: r)
  case Nil
  then show ?case by simp
next
  case (Cons d docs)
  then have "well_formed_order d" by simp
  then have "(case field (doc_data d) ''total'' of JNumber n \<Rightarrow> num_add (Finite r) n | _ \<Rightarrow> Finite r)
             = Finite (r + finite_total d)"
    by (auto simp: well_formed_order_def finite_total_def split: jsval.splits number.splits)
  with Cons show ?case
    by (simp add: algebra_simps)
qed

lemma aggregateOrders_server:
  assumes "\<forall>d \<in> set (collections ''orders''). well_formed_order d"
  shows "aggregateOrders (record_store collections True) rt rng
          = Inr (order_aggregate_of
                   (Finite (of_nat (length (filter (stamped_in ''createdAt'' rng)
                                              (collections ''orders'')))))
                   (Finite (sum_list (map finite_total
                                        (filter (stamped_in ''createdAt'' rng)
                                           (collections ''orders''))))))"
proof -
  have wf: "\<forall>d \<in> set (filter (stamped_in ''createdAt'' rng) (collections ''orders'')).
              well_formed_order d"
    using assms by simp
  show ?thesis
    using server_sum_fold [OF wf, of 0]
    by (simp add: aggregateOrders_def record_store_def selected_range server_sum_def
        normalizeNumber_def)
qed

lemma aggregateOrders_fallback:
  assumes "\<forall>d \<in> set (collections ''orders''). well_formed_order d"
  shows "aggregateOrders (record_store collections False) rt rng
          = Inr (order_aggregate_of
                   (Finite (of_nat (length (filter (stamped_in ''createdAt'' rng)
                                              (collections ''orders'')))))
                   (Finite (sum_list (map finite_total
                                        (filter (stamped_in ''createdAt'' rng)
                                           (collections ''orders''))))))"
  using aggregate_fold_well_formed [OF assms, of rt rng 0 0]
  by (simp add: aggregateOrders_def record_store_def selected_order_only)

lemma selected_count:
  "selected \<lparr>q_path = p,
             q_constraints = buildRangeConstraints rng f
               @ (case additionalFilters options of Some fs \<Rightarrow> fs | None \<Rightarrow> [])\<rparr> docs
     = filter (counted f rng options) docs"
  unfolding selected_def
  by (rule filter_cong)
     (auto simp: buildRangeConstraints_def stamped_in_def counted_def split: jsval.splits)

lemma count_step_stamped:
  assumes "has_timestamp f d" and "filters_agree options d"
  shows "count_step rt f rng options (Finite c) d =
           (if counted f rng options d then Finite (c + 1) else Finite c)"
proof -
  obtain t where t: "field (doc_data d) f = JTimestamp t"
    using assms(1) by (auto simp: has_timestamp_def split: jsval.splits)
  show ?thesis
    using t assms(2)
    by (auto simp: count_step_def Let_def nullish_def extractTimestamp_Timestamp
        stamped_in_def counted_def filters_agree_def split: option.splits)
qed

lemma count_fold_stamped:
  assumes "\<forall>d \<in> set docs. has_timestamp f d \<and> filters_agree options d"
  shows "foldl (count_step rt f rng options) (Finite c) docs =
           Finite (c + of_nat (length (filter (counted f rng options) docs)))"
  using assms
proof (induction docs arbitrary: c)
  case Nil
  then show ?case by simp
next
  case (Cons d docs)
  then show ?case
    by (simp add: count_step_stamped algebra_simps)
qed

lemma countDocumentsInRange_fallback:
  assumes "\<forall>d \<in> set (collections path). has_timestamp f d \<and> filters_agree options d"
  shows "countDocumentsInRange (record_store collections False) rt path f rng options
           = Inr (Finite (of_nat (length (filter (counted f rng options) (collections path)))))"
  using count_fold_stamped [OF assms, of rt rng 0]
  by (simp add: countDocumentsInRange_def record_store_def selected_order_only)

lemma countDocumentsInRange_server:
  "countDocumentsInRange (record_store collections True) rt path f rng options
     = Inr (Finite (of_nat (length (filter (counted f rng options) (collections path)))))"
  by (simp add: countDocumentsInRange_def record_store_def selected_count normalizeNumber_def)

lemma gallery_agree: "filters_agree gallery_options d"
  by (simp add: filters_agree_def gallery_options_def)


section \<open>Properties of sorting and slicing\<close>

lemma set_insert_by: "set (insert_by le x xs) = insert x (set xs)"
  by (induction xs) auto


lemma sort_by_Cons: "sort_by le (x # xs) = insert_by le x (sort_by le xs)"
  by (simp add: sort_by_def)



lemma distinct_insert_by: "distinct (insert_by le x xs) \<longleftrightarrow> x \<notin> set xs \<and> distinct xs"
  by (induction xs) (auto simp: set_insert_by)

lemma map_insert_by:
  "map f (insert_by (\<lambda>a b. le (f a) (f b)) x xs) = insert_by le (f x) (map f xs)"
  by (induction xs) auto

lemma map_sort_by: "map f (sort_by (\<lambda>a b. le (f a) (f b)) xs) = sort_by le (map f xs)"
  by (induction xs) (simp_all add: sort_by_Cons map_insert_by, simp add: sort_by_def)






lemma set_slice_to: "set (slice_to n xs) \<subseteq> set xs"
  by (auto simp: slice_to_def dest: in_set_takeD)




section \<open>Properties of decimal strings\<close>
















section \<open>Properties of the bucket keys\<close>






section \<open>Properties of the trend\<close>














section \<open>Metric comparator: the change percentage\<close>


lemma calculateChange_not_finite:
  "\<not> num_isFinite c \<or> \<not> num_isFinite p \<Longrightarrow> p \<noteq> Finite 0 \<Longrightarrow> calculateChange c p = None"
  by (cases c; cases p) (auto simp: calculateChange_def num_sub_def signed_infinity_def Let_def)






section \<open>Period resolver: the bounds\<close>

text \<open>
  C4, as the code has it. For a period tag outside today, week, month and year, only the
  previous range is the empty range at the start of today; the current range runs from
  the start of today to now, as it does for the tag today. The current range is empty
  only when now is the start of the day.
\<close>

theorem getPeriodBounds_unknown_tag:
  assumes "period \<notin> {''today'', ''week'', ''month'', ''year''}"
  shows "getPeriodBounds period now =
           \<lparr>current = \<lparr>range_start = Day now * msPerDay, range_end = now\<rparr>,
            previous = \<lparr>range_start = Day now * msPerDay, range_end = Day now * msPerDay\<rparr>\<rparr>
       \<and> current (getPeriodBounds period now) = current (getPeriodBounds ''today'' now)
       \<and> (range_start (current (getPeriodBounds period now))
            = range_end (current (getPeriodBounds period now)) \<longleftrightarrow> TimeWithinDay now = 0)"
proof -
  have "Day now * msPerDay + TimeWithinDay now = now"
    by (simp add: Day_def TimeWithinDay_def)
  then have "Day now * msPerDay = now \<longleftrightarrow> TimeWithinDay now = 0"
    by linarith
  then show ?thesis
    using assms by (simp add: getPeriodBounds_other getPeriodBounds_today)
qed

theorem getPeriodBounds_unknown_tag_witness:
  "''quarter'' \<notin> {''today'', ''week'', ''month'', ''year''}
   \<and> getPeriodBounds ''quarter'' 1762178400000 =
       \<lparr>current = \<lparr>range_start = 1762128000000, range_end = 1762178400000\<rparr>,
        previous = \<lparr>range_start = 1762128000000, range_end = 1762128000000\<rparr>\<rparr>"
  using getPeriodBounds_unknown_tag [of "''quarter''" 1762178400000]
  by (simp add: Day_def msPerDay_def)

text \<open>
  C4, as the claim states it, fails: at 14:00 on 3 November 2025 the current range of the
  unknown tag \<open>quarter\<close> starts at midnight and ends at 14:00.
\<close>

theorem getPeriodBounds_unknown_current_not_empty:
  "range_start (current (getPeriodBounds ''quarter'' 1762178400000)) = 1762128000000
   \<and> range_end (current (getPeriodBounds ''quarter'' 1762178400000)) = 1762178400000
   \<and> range_start (current (getPeriodBounds ''quarter'' 1762178400000))
      \<noteq> range_end (current (getPeriodBounds ''quarter'' 1762178400000))"
  by (simp add: getPeriodBounds_other Day_def msPerDay_def)



section \<open>Resilient aggregator: the two paths\<close>

text \<open>
  C3, as the code has it. Over a collection in which every order is well formed (its
  \<^verbatim>\<open>createdAt\<close> is a timestamp, its \<^verbatim>\<open>total\<close> absent, null or a finite number), and for every
  date range, the fallback scan of \<^verbatim>\<open>aggregateOrders\<close> gives the count, revenue and average
  that the server-side aggregate gives. Over a collection in which the time field of
  every record is a timestamp, and with an in-process predicate that agrees with the
  additional filters, the fallback scan of \<^verbatim>\<open>countDocumentsInRange\<close> gives the count of the
  server-side count. Both are the count and the sum over the records stamped in the
  range.
\<close>

theorem aggregator_paths_agree:
  assumes "\<forall>d \<in> set (collections ''orders''). well_formed_order d"
    and "\<forall>d \<in> set (collections path). has_timestamp f d \<and> filters_agree options d"
  shows "aggregateOrders (record_store collections False) rt rng
           = aggregateOrders (record_store collections True) rt rng
       \<and> aggregateOrders (record_store collections True) rt rng
           = Inr (order_aggregate_of
                   (Finite (of_nat (length (filter (stamped_in ''createdAt'' rng)
                                              (collections ''orders'')))))
                   (Finite (sum_list (map finite_total
                                        (filter (stamped_in ''createdAt'' rng)
                                           (collections ''orders''))))))
       \<and> countDocumentsInRange (record_store collections False) rt path f rng options
           = countDocumentsInRange (record_store collections True) rt path f rng options
       \<and> countDocumentsInRange (record_store collections True) rt path f rng options
           = Inr (Finite (of_nat (length (filter (counted f rng options) (collections path)))))"
  using assms aggregateOrders_fallback [of collections rt rng]
    aggregateOrders_server [of collections rt rng]
    countDocumentsInRange_fallback [of collections path f options rt rng]
    countDocumentsInRange_server [of collections rt path f rng options]
  by simp

theorem aggregator_paths_agree_witness:
  "aggregateOrders (record_store example_collections False) (quiet_runtime 1762178400000)
      \<lparr>range_start = 1762128000000, range_end = 1762178400000\<rparr>
     = Inr \<lparr>agg_count = Finite 2, agg_revenue = Finite 100, agg_average = Finite 50\<rparr>
   \<and> aggregateOrders (record_store example_collections True) (quiet_runtime 1762178400000)
      \<lparr>range_start = 1762128000000, range_end = 1762178400000\<rparr>
     = Inr \<lparr>agg_count = Finite 2, agg_revenue = Finite 100, agg_average = Finite 50\<rparr>
   \<and> countDocumentsInRange (record_store example_collections False)
      (quiet_runtime 1762178400000) ''media'' ''uploadedAt''
      \<lparr>range_start = 1762128000000, range_end = 1762178400000\<rparr> gallery_options
     = Inr (Finite 1)
   \<and> countDocumentsInRange (record_store example_collections True)
      (quiet_runtime 1762178400000) ''media'' ''uploadedAt''
      \<lparr>range_start = 1762128000000, range_end = 1762178400000\<rparr> gallery_options
     = Inr (Finite 1)"
proof -
  have orders: "\<forall>d \<in> set (example_collections ''orders''). well_formed_order d"
    by (simp add: example_collections_def well_formed_order_def field_def)
  have media: "\<forall>d \<in> set (example_collections ''media'').
                 has_timestamp ''uploadedAt'' d \<and> filters_agree gallery_options d"
    by (simp add: example_collections_def has_timestamp_def field_def gallery_agree)
  have "aggregateOrders (record_store example_collections True) (quiet_runtime 1762178400000)
          \<lparr>range_start = 1762128000000, range_end = 1762178400000\<rparr>
        = Inr \<lparr>agg_count = Finite 2, agg_revenue = Finite 100, agg_average = Finite 50\<rparr>"
    by code_simp
  moreover have "countDocumentsInRange (record_store example_collections True)
          (quiet_runtime 1762178400000) ''media'' ''uploadedAt''
          \<lparr>range_start = 1762128000000, range_end = 1762178400000\<rparr> gallery_options
        = Inr (Finite 1)"
    by code_simp
  ultimately show ?thesis
    using orders media
      aggregator_paths_agree [of example_collections "''media''" "''uploadedAt''"
        gallery_options "quiet_runtime 1762178400000"
        "\<lparr>range_start = 1762128000000, range_end = 1762178400000\<rparr>"]
    by simp
qed

text \<open>
  C3, as the claim states it, fails. An order whose \<^verbatim>\<open>createdAt\<close> is null is dated now by the
  scan and counted in a range that holds now, and is not in the range for the server.
  A product without \<^verbatim>\<open>updatedAt\<close> is dated by its \<^verbatim>\<open>createdAt\<close> by the scan (the fallback
  field of the call) and counted in the current month, and is not counted by the
  server, whose filter is on \<^verbatim>\<open>updatedAt\<close>.
\<close>

theorem fallback_scan_counts_more:
  "aggregateOrders
     (record_store
        (\<lambda>p. [\<lparr>doc_id = ''o1'',
                doc_data = [(''createdAt'', Null), (''total'', JNumber (Finite 50))]\<rparr>]) False)
     (quiet_runtime 1762178400000)
     \<lparr>range_start = 1762128000000, range_end = 1762214400000\<rparr>
     = Inr \<lparr>agg_count = Finite 1, agg_revenue = Finite 50, agg_average = Finite 50\<rparr>
   \<and> aggregateOrders
     (record_store
        (\<lambda>p. [\<lparr>doc_id = ''o1'',
                doc_data = [(''createdAt'', Null), (''total'', JNumber (Finite 50))]\<rparr>]) True)
     (quiet_runtime 1762178400000)
     \<lparr>range_start = 1762128000000, range_end = 1762214400000\<rparr>
     = Inr \<lparr>agg_count = Finite 0, agg_revenue = Finite 0, agg_average = Finite 0\<rparr>
   \<and> countDocumentsInRange
     (record_store
        (\<lambda>p. [\<lparr>doc_id = ''p1'', doc_data = [(''createdAt'', JTimestamp 1762000000000)]\<rparr>]) False)
     (quiet_runtime 1762178400000) ''products'' ''updatedAt''
     (current (getPeriodBounds ''month'' 1762178400000))
     (no_options\<lparr>fallbackField := Some ''createdAt''\<rparr>)
     = Inr (Finite 1)
   \<and> countDocumentsInRange
     (record_store
        (\<lambda>p. [\<lparr>doc_id = ''p1'', doc_data = [(''createdAt'', JTimestamp 1762000000000)]\<rparr>]) True)
     (quiet_runtime 1762178400000) ''products'' ''updatedAt''
     (current (getPeriodBounds ''month'' 1762178400000))
     (no_options\<lparr>fallbackField := Some ''createdAt''\<rparr>)
     = Inr (Finite 0)"
  by code_simp

section \<open>Timestamp extraction: the default\<close>





section \<open>Currency resolver: a failed fetch\<close>





section \<open>Geographic breakdown: the scenario of two orders\<close>







section \<open>Activity feed merger\<close>








section \<open>Trend bucketizer: the order of the series\<close>




section \<open>Trend bucketizer: the profit of a record\<close>





end
